theory Spec2Isabelle
  imports Main "HOL-Library.Word"
begin

unbundle bit_operations_syntax

section \<open>Remote ancient store: server facade and remote client\<close>

text \<open>
  A shallow embedding of \<^verbatim>\<open>core/rawdb/freezer_remote_api.go\<close> (the server facade
  \<^verbatim>\<open>FreezerRemoteAPI\<close>) and \<^verbatim>\<open>core/rawdb/freezer_remote_client.go\<close> (the remote
  client \<^verbatim>\<open>FreezerRemoteClient\<close>).

  Go conventions kept by the model:
  \<^item> a function returning \<^verbatim>\<open>(v, err)\<close> is a function into a pair \<open>'a \<times> error option\<close>,
    where \<open>None\<close> is Go's \<^verbatim>\<open>nil\<close> error; both components are always present, as in Go;
  \<^item> a method that may change the state behind its receiver also returns the new state;
  \<^item> \<^verbatim>\<open>uint64\<close> is \<open>64 word\<close>, \<^verbatim>\<open>byte\<close> is \<open>8 word\<close>, \<^verbatim>\<open>[]byte\<close> is a list of bytes
    (a nil slice and an empty slice are both \<open>[]\<close>: nothing below tells them apart),
    a Go \<^verbatim>\<open>string\<close> is a list of 8-bit characters.
\<close>

subsection \<open>Basic types and errors\<close>

type_synonym byte = "8 word"
type_synonym bytes = "byte list"
type_synonym uint64 = "64 word"

text \<open>
  The four errors \<^verbatim>\<open>hexutil.Decode\<close> can return; the specification groups them as
  \<^verbatim>\<open>MalformedEnvelope\<close>.
\<close>

datatype hexutil_error = ErrEmptyString | ErrSyntax | ErrMissingPrefix | ErrOddLength

text \<open>
  Go's \<^verbatim>\<open>error\<close> values, following the taxonomy of section 7 of the specification.
  An engine may return any of them; \<open>EngineError\<close> and \<open>TransportError\<close> carry a message.
\<close>

datatype error =
    MalformedEnvelope hexutil_error
  | NotFound
  | OutOfOrderAppend
  | InvalidTruncateTarget
  | TransportError string
  | EngineError string

subsection \<open>Binary envelope codec\<close>

text \<open>
  Modelled from the spec: \<^verbatim>\<open>hexutil.Encode\<close> and \<^verbatim>\<open>hexutil.Decode\<close> (package
  \<^verbatim>\<open>common/hexutil\<close>, over Go's \<^verbatim>\<open>encoding/hex\<close>) are called by both source files but
  are not among them. Section 6: every binary argument or result crossing the boundary is
  a \<^verbatim>\<open>0x\<close>-prefixed hexadecimal string, the empty blob is the literal string \<^verbatim>\<open>0x\<close>;
  section 4.1: decoding a malformed text fails with \<^verbatim>\<open>MalformedEnvelope\<close>.
  The definitions follow the Go functions step by step: two lower-case digits per byte,
  high nibble first; digits of either case are accepted when decoding; Go's pair of a
  byte slice and an error is kept, the slice holding the bytes decoded before the error.
\<close>

datatype hex_error = InvalidByteError char | ErrLength

definition hextable :: string where
  "hextable = ''0123456789abcdef''"

fun hex_Encode :: "bytes \<Rightarrow> string" where
  "hex_Encode [] = []"
| "hex_Encode (v # src) =
     hextable ! unat (drop_bit 4 v) # hextable ! unat (v AND 0x0f) # hex_Encode src"

definition fromHexChar :: "char \<Rightarrow> byte option" where
  "fromHexChar c =
     (let b = (of_char c :: byte) in
      if of_char CHR ''0'' \<le> b \<and> b \<le> of_char CHR ''9'' then Some (b - of_char CHR ''0'')
      else if of_char CHR ''a'' \<le> b \<and> b \<le> of_char CHR ''f'' then Some (b - of_char CHR ''a'' + 10)
      else if of_char CHR ''A'' \<le> b \<and> b \<le> of_char CHR ''F'' then Some (b - of_char CHR ''A'' + 10)
      else None)"

fun hex_DecodeString :: "string \<Rightarrow> bytes \<times> hex_error option" where
  "hex_DecodeString [] = ([], None)"
| "hex_DecodeString [p] =
     (case fromHexChar p of
        None \<Rightarrow> ([], Some (InvalidByteError p))
      | Some a \<Rightarrow> ([], Some ErrLength))"
| "hex_DecodeString (p # q # src) =
     (case fromHexChar p of
        None \<Rightarrow> ([], Some (InvalidByteError p))
      | Some a \<Rightarrow>
          (case fromHexChar q of
             None \<Rightarrow> ([], Some (InvalidByteError q))
           | Some b \<Rightarrow>
               (case hex_DecodeString src of
                  (dst, err) \<Rightarrow> ((push_bit 4 a OR b) # dst, err))))"

definition has0xPrefix :: "string \<Rightarrow> bool" where
  "has0xPrefix input \<longleftrightarrow>
     length input \<ge> 2 \<and> input ! 0 = CHR ''0'' \<and> (input ! 1 = CHR ''x'' \<or> input ! 1 = CHR ''X'')"

fun mapError :: "hex_error \<Rightarrow> hexutil_error" where
  "mapError (InvalidByteError c) = ErrSyntax"
| "mapError ErrLength = ErrOddLength"

definition Encode :: "bytes \<Rightarrow> string" where
  "Encode b = ''0x'' @ hex_Encode b"

definition Decode :: "string \<Rightarrow> bytes \<times> error option" where
  "Decode input =
     (if length input = 0 then ([], Some (MalformedEnvelope ErrEmptyString))
      else if \<not> has0xPrefix input then ([], Some (MalformedEnvelope ErrMissingPrefix))
      else (case hex_DecodeString (drop 2 input) of
              (b, None) \<Rightarrow> (b, None)
            | (b, Some e) \<Rightarrow> (b, Some (MalformedEnvelope (mapError e)))))"

subsection \<open>The engine behind the facade\<close>

text \<open>
  The facade holds a pointer \<^verbatim>\<open>freezer *freezerRemote\<close> and only calls its methods.
  The type \<^verbatim>\<open>freezerRemote\<close> is declared outside the two source files, so the engine is
  a parameter here: a table of its eight methods over a state \<open>'s\<close> of the engine's own.
  Each method takes the state behind the pointer last and returns its Go result together
  with the state it leaves. Nothing is assumed about what an engine does.
\<close>

record 's freezerRemote =
  freezerRemote_Close :: "'s \<Rightarrow> error option \<times> 's"
  freezerRemote_HasAncient :: "string \<Rightarrow> uint64 \<Rightarrow> 's \<Rightarrow> (bool \<times> error option) \<times> 's"
  freezerRemote_Ancient :: "string \<Rightarrow> uint64 \<Rightarrow> 's \<Rightarrow> (bytes \<times> error option) \<times> 's"
  freezerRemote_Ancients :: "'s \<Rightarrow> (uint64 \<times> error option) \<times> 's"
  freezerRemote_AncientSize :: "string \<Rightarrow> 's \<Rightarrow> (uint64 \<times> error option) \<times> 's"
  freezerRemote_AppendAncient ::
    "uint64 \<Rightarrow> bytes \<Rightarrow> bytes \<Rightarrow> bytes \<Rightarrow> bytes \<Rightarrow> bytes \<Rightarrow> 's \<Rightarrow> error option \<times> 's"
  freezerRemote_TruncateAncients :: "uint64 \<Rightarrow> 's \<Rightarrow> error option \<times> 's"
  freezerRemote_Sync :: "'s \<Rightarrow> error option \<times> 's"

subsection \<open>The server facade \<^verbatim>\<open>FreezerRemoteAPI\<close>\<close>

text \<open>
  \<^verbatim>\<open>freezer_remote_api.go\<close>, lines 41-140. A facade is its engine \<open>f\<close>; every method
  takes the engine's state and returns the state the engine leaves.
\<close>

definition FreezerRemoteAPI_pingVersion :: "'s freezerRemote \<Rightarrow> string" where
  "FreezerRemoteAPI_pingVersion f = ''version 1''"

definition FreezerRemoteAPI_Close :: "'s freezerRemote \<Rightarrow> 's \<Rightarrow> error option \<times> 's" where
  "FreezerRemoteAPI_Close f s = freezerRemote_Close f s"

definition FreezerRemoteAPI_HasAncient ::
  "'s freezerRemote \<Rightarrow> string \<Rightarrow> uint64 \<Rightarrow> 's \<Rightarrow> (bool \<times> error option) \<times> 's" where
  "FreezerRemoteAPI_HasAncient f kind number s = freezerRemote_HasAncient f kind number s"

definition FreezerRemoteAPI_Ancient ::
  "'s freezerRemote \<Rightarrow> string \<Rightarrow> uint64 \<Rightarrow> 's \<Rightarrow> (string \<times> error option) \<times> 's" where
  "FreezerRemoteAPI_Ancient f kind number s =
     (case freezerRemote_Ancient f kind number s of
        ((ancient, err), s') \<Rightarrow>
          if err \<noteq> None then ((''0x'', err), s')
          else ((Encode ancient, err), s'))"

definition FreezerRemoteAPI_Ancients ::
  "'s freezerRemote \<Rightarrow> 's \<Rightarrow> (uint64 \<times> error option) \<times> 's" where
  "FreezerRemoteAPI_Ancients f s =
     (case freezerRemote_Ancients f s of
        ((numAncients, err), s') \<Rightarrow>
          if err \<noteq> None then ((0, err), s')
          else ((numAncients, err), s'))"

definition FreezerRemoteAPI_AncientSize ::
  "'s freezerRemote \<Rightarrow> string \<Rightarrow> 's \<Rightarrow> (uint64 \<times> error option) \<times> 's" where
  "FreezerRemoteAPI_AncientSize f kind s =
     (case freezerRemote_AncientSize f kind s of
        ((size', err), s') \<Rightarrow>
          if err \<noteq> None then ((0, err), s')
          else ((size', err), s'))"

text \<open>
  Lines 91-111. The first four decodings return their error at once; the error of the
  fifth (line 109) is assigned and never tested, and line 110 calls the engine with
  whatever bytes \<^verbatim>\<open>hexutil.Decode\<close> returned for \<^verbatim>\<open>td\<close>.
\<close>

definition FreezerRemoteAPI_AppendAncient ::
  "'s freezerRemote \<Rightarrow> uint64 \<Rightarrow> string \<Rightarrow> string \<Rightarrow> string \<Rightarrow> string \<Rightarrow> string \<Rightarrow> 's
     \<Rightarrow> error option \<times> 's" where
  "FreezerRemoteAPI_AppendAncient f number hash header body receipts td s =
     (case Decode hash of
        (bHash, Some err) \<Rightarrow> (Some err, s)
      | (bHash, None) \<Rightarrow>
     (case Decode header of
        (bHeader, Some err) \<Rightarrow> (Some err, s)
      | (bHeader, None) \<Rightarrow>
     (case Decode body of
        (bBody, Some err) \<Rightarrow> (Some err, s)
      | (bBody, None) \<Rightarrow>
     (case Decode receipts of
        (bReceipts, Some err) \<Rightarrow> (Some err, s)
      | (bReceipts, None) \<Rightarrow>
     (case Decode td of
        (bTd, err) \<Rightarrow>
          freezerRemote_AppendAncient f number bHash bHeader bBody bReceipts bTd s)))))"

definition FreezerRemoteAPI_TruncateAncients ::
  "'s freezerRemote \<Rightarrow> uint64 \<Rightarrow> 's \<Rightarrow> error option \<times> 's" where
  "FreezerRemoteAPI_TruncateAncients f items s = freezerRemote_TruncateAncients f items s"

definition FreezerRemoteAPI_Sync :: "'s freezerRemote \<Rightarrow> 's \<Rightarrow> error option \<times> 's" where
  "FreezerRemoteAPI_Sync f s = freezerRemote_Sync f s"

text \<open>Lines 124-140: the body is commented out; the method returns \<^verbatim>\<open>nil\<close>.\<close>

definition FreezerRemoteAPI_repair :: "'s freezerRemote \<Rightarrow> 's \<Rightarrow> error option \<times> 's" where
  "FreezerRemoteAPI_repair f s = (None, s)"

subsection \<open>The ancient store of the specification\<close>

text \<open>
  Modelled from the spec: the engine's own code (\<^verbatim>\<open>freezerRemote\<close> and its methods) is
  not among the sources. Section 3: the store holds, per category, an ordered sequence of
  binary blobs and a frozen counter, the count of committed sequence numbers. Sections
  4.2 to 4.4 and 7: \<^verbatim>\<open>HasAncient\<close> is true iff the number is below the frozen count;
  \<^verbatim>\<open>Ancient\<close> fails with \<^verbatim>\<open>NotFound\<close> at a number not below it; \<^verbatim>\<open>Ancients\<close> is the
  frozen count; \<^verbatim>\<open>AncientSize\<close> is the cumulative stored size of a category;
  \<^verbatim>\<open>AppendAncient\<close> accepts only the number equal to the frozen count, stores the five
  blobs and bumps the count by one, and fails with \<^verbatim>\<open>OutOfOrderAppend\<close> otherwise;
  \<^verbatim>\<open>TruncateAncients\<close> fails with \<^verbatim>\<open>InvalidTruncateTarget\<close> above the frozen count and
  otherwise cuts every category and the count down to the target; \<^verbatim>\<open>Sync\<close> and
  \<^verbatim>\<open>Close\<close> return nothing and leave the committed records alone.
  The frozen count is a natural number: the specification gives it no upper bound.
\<close>

record store =
  frozen :: nat
  tables :: "string \<Rightarrow> bytes list"

definition store_Close :: "store \<Rightarrow> error option \<times> store" where
  "store_Close st = (None, st)"

definition store_HasAncient :: "string \<Rightarrow> uint64 \<Rightarrow> store \<Rightarrow> (bool \<times> error option) \<times> store" where
  "store_HasAncient kind number st = ((unat number < frozen st, None), st)"

definition store_Ancient :: "string \<Rightarrow> uint64 \<Rightarrow> store \<Rightarrow> (bytes \<times> error option) \<times> store" where
  "store_Ancient kind number st =
     (if unat number < frozen st \<and> unat number < length (tables st kind)
      then ((tables st kind ! unat number, None), st)
      else (([], Some NotFound), st))"

definition store_Ancients :: "store \<Rightarrow> (uint64 \<times> error option) \<times> store" where
  "store_Ancients st = ((of_nat (frozen st), None), st)"

definition store_AncientSize :: "string \<Rightarrow> store \<Rightarrow> (uint64 \<times> error option) \<times> store" where
  "store_AncientSize kind st = ((of_nat (sum_list (map length (tables st kind))), None), st)"

definition store_AppendAncient ::
  "uint64 \<Rightarrow> bytes \<Rightarrow> bytes \<Rightarrow> bytes \<Rightarrow> bytes \<Rightarrow> bytes \<Rightarrow> store \<Rightarrow> error option \<times> store" where
  "store_AppendAncient number hash header body receipts td st =
     (if unat number = frozen st
      then (None,
            st\<lparr>frozen := frozen st + 1,
               tables := (tables st)
                 (''hash'' := tables st ''hash'' @ [hash],
                  ''header'' := tables st ''header'' @ [header],
                  ''body'' := tables st ''body'' @ [body],
                  ''receipts'' := tables st ''receipts'' @ [receipts],
                  ''td'' := tables st ''td'' @ [td])\<rparr>)
      else (Some OutOfOrderAppend, st))"

definition store_TruncateAncients :: "uint64 \<Rightarrow> store \<Rightarrow> error option \<times> store" where
  "store_TruncateAncients target st =
     (if unat target > frozen st then (Some InvalidTruncateTarget, st)
      else (None, st\<lparr>frozen := unat target,
                     tables := (\<lambda>kind. take (unat target) (tables st kind))\<rparr>))"

definition store_Sync :: "store \<Rightarrow> error option \<times> store" where
  "store_Sync st = (None, st)"

definition store_engine :: "store freezerRemote" where
  "store_engine =
     \<lparr>freezerRemote_Close = store_Close,
      freezerRemote_HasAncient = store_HasAncient,
      freezerRemote_Ancient = store_Ancient,
      freezerRemote_Ancients = store_Ancients,
      freezerRemote_AncientSize = store_AncientSize,
      freezerRemote_AppendAncient = store_AppendAncient,
      freezerRemote_TruncateAncients = store_TruncateAncients,
      freezerRemote_Sync = store_Sync\<rparr>"

text \<open>The store before any append: no record in any category.\<close>

definition empty_store :: store where
  "empty_store = \<lparr>frozen = 0, tables = (\<lambda>kind. [])\<rparr>"

text \<open>
  An engine without state whose every method fails with the error \<open>e\<close>; it stands for an
  engine in trouble where the propagation of errors is exercised.
\<close>

definition failing_engine :: "error \<Rightarrow> unit freezerRemote" where
  "failing_engine e =
     \<lparr>freezerRemote_Close = (\<lambda>s. (Some e, s)),
      freezerRemote_HasAncient = (\<lambda>kind number s. ((False, Some e), s)),
      freezerRemote_Ancient = (\<lambda>kind number s. (([], Some e), s)),
      freezerRemote_Ancients = (\<lambda>s. ((7, Some e), s)),
      freezerRemote_AncientSize = (\<lambda>kind s. ((7, Some e), s)),
      freezerRemote_AppendAncient = (\<lambda>number hash header body receipts td s. (Some e, s)),
      freezerRemote_TruncateAncients = (\<lambda>items s. (Some e, s)),
      freezerRemote_Sync = (\<lambda>s. (Some e, s))\<rparr>"


subsection \<open>The transport under the client\<close>

text \<open>
  The client holds a \<^verbatim>\<open>*rpc.Client\<close> and uses one method of it,
  \<^verbatim>\<open>Call(result, method, args...)\<close>, with four kinds of \<^verbatim>\<open>result\<close>: \<^verbatim>\<open>nil\<close>, a
  \<^verbatim>\<open>*bool\<close>, a \<^verbatim>\<open>*uint64\<close> and a \<^verbatim>\<open>*string\<close>. Package \<^verbatim>\<open>rpc\<close> is outside the two
  source files, so the transport is a parameter: one function per kind of result, over a
  connection state \<open>'c\<close>. Each returns what the variable behind \<^verbatim>\<open>result\<close> holds after
  the call (its zero value, unless the call stored an answer there), the error of the
  call, and the connection as the call leaves it. No other method of \<^verbatim>\<open>rpc.Client\<close> is
  called by the client, \<^verbatim>\<open>rpc.Client.Close\<close> in particular is not.
\<close>

datatype arg = Uint64 uint64 | String string

record 'c rpc_Client =
  rpc_CallNil :: "string \<Rightarrow> arg list \<Rightarrow> 'c \<Rightarrow> error option \<times> 'c"
  rpc_CallBool :: "string \<Rightarrow> arg list \<Rightarrow> 'c \<Rightarrow> (bool \<times> error option) \<times> 'c"
  rpc_CallUint64 :: "string \<Rightarrow> arg list \<Rightarrow> 'c \<Rightarrow> (uint64 \<times> error option) \<times> 'c"
  rpc_CallString :: "string \<Rightarrow> arg list \<Rightarrow> 'c \<Rightarrow> (string \<times> error option) \<times> 'c"

subsection \<open>The remote client \<^verbatim>\<open>FreezerRemoteClient\<close>\<close>

text \<open>
  \<^verbatim>\<open>freezer_remote_client.go\<close>. The channel \<^verbatim>\<open>quit\<close> is never made, sent to or
  received from: it stays \<^verbatim>\<open>nil\<close>, here \<open>None\<close>.
\<close>

record 'c FreezerRemoteClient =
  client :: 'c
  status :: string
  quit :: "unit option"

text \<open>Lines 40-43. The method does not touch the connection.\<close>

definition FreezerRemoteClient_pingVersion :: "'c FreezerRemoteClient \<Rightarrow> string \<times> error option" where
  "FreezerRemoteClient_pingVersion api = (''version 1'', None)"

text \<open>
  Lines 21-38. \<^verbatim>\<open>rpc.Dial\<close> is the parameter \<open>Dial\<close>; its Go result, a client or an
  error, is a sum with the error on the left, and so is the constructor's.
  \<^verbatim>\<open>fmt.Sprintf("ok [version=%v]", version)\<close> puts the string between the two fixed parts.
\<close>

definition newFreezerRemoteClient ::
  "(string \<Rightarrow> error + 'c) \<Rightarrow> string \<Rightarrow> bool \<Rightarrow> error + 'c FreezerRemoteClient" where
  "newFreezerRemoteClient Dial endpoint ipc =
     (case Dial endpoint of
        Inl err \<Rightarrow> Inl err
      | Inr client' \<Rightarrow>
          (let extfreezer = \<lparr>client = client', status = [], quit = None\<rparr> in
           case FreezerRemoteClient_pingVersion extfreezer of
             (version, Some err) \<Rightarrow> Inl err
           | (version, None) \<Rightarrow>
               Inr (extfreezer\<lparr>status := ''ok [version='' @ version @ '']''\<rparr>)))"


definition FreezerRemoteClient_HasAncient ::
  "'c rpc_Client \<Rightarrow> string \<Rightarrow> uint64 \<Rightarrow> 'c FreezerRemoteClient
     \<Rightarrow> (bool \<times> error option) \<times> 'c FreezerRemoteClient" where
  "FreezerRemoteClient_HasAncient t kind number api =
     (case rpc_CallBool t ''freezer_hasAncient'' [String kind, Uint64 number] (client api) of
        ((res, err), c) \<Rightarrow> ((res, err), api\<lparr>client := c\<rparr>))"

definition FreezerRemoteClient_Ancient ::
  "'c rpc_Client \<Rightarrow> string \<Rightarrow> uint64 \<Rightarrow> 'c FreezerRemoteClient
     \<Rightarrow> (bytes \<times> error option) \<times> 'c FreezerRemoteClient" where
  "FreezerRemoteClient_Ancient t kind number api =
     (case rpc_CallString t ''freezer_ancient'' [String kind, Uint64 number] (client api) of
        ((res, Some err), c) \<Rightarrow> (([], Some err), api\<lparr>client := c\<rparr>)
      | ((res, None), c) \<Rightarrow> (Decode res, api\<lparr>client := c\<rparr>))"

definition FreezerRemoteClient_Ancients ::
  "'c rpc_Client \<Rightarrow> 'c FreezerRemoteClient \<Rightarrow> (uint64 \<times> error option) \<times> 'c FreezerRemoteClient" where
  "FreezerRemoteClient_Ancients t api =
     (case rpc_CallUint64 t ''freezer_ancients'' [] (client api) of
        ((res, err), c) \<Rightarrow> ((res, err), api\<lparr>client := c\<rparr>))"

definition FreezerRemoteClient_AncientSize ::
  "'c rpc_Client \<Rightarrow> string \<Rightarrow> 'c FreezerRemoteClient
     \<Rightarrow> (uint64 \<times> error option) \<times> 'c FreezerRemoteClient" where
  "FreezerRemoteClient_AncientSize t kind api =
     (case rpc_CallUint64 t ''freezer_ancientSize'' [String kind] (client api) of
        ((res, err), c) \<Rightarrow> ((res, err), api\<lparr>client := c\<rparr>))"

definition FreezerRemoteClient_AppendAncient ::
  "'c rpc_Client \<Rightarrow> uint64 \<Rightarrow> bytes \<Rightarrow> bytes \<Rightarrow> bytes \<Rightarrow> bytes \<Rightarrow> bytes \<Rightarrow> 'c FreezerRemoteClient
     \<Rightarrow> error option \<times> 'c FreezerRemoteClient" where
  "FreezerRemoteClient_AppendAncient t number hash header body receipts td api =
     (let hexHash = Encode hash;
          hexHeader = Encode header;
          hexBody = Encode body;
          hexReceipts = Encode receipts;
          hexTd = Encode td
      in case rpc_CallNil t ''freezer_appendAncient''
                [Uint64 number, String hexHash, String hexHeader, String hexBody,
                 String hexReceipts, String hexTd] (client api) of
           (err, c) \<Rightarrow> (err, api\<lparr>client := c\<rparr>))"

definition FreezerRemoteClient_TruncateAncients ::
  "'c rpc_Client \<Rightarrow> uint64 \<Rightarrow> 'c FreezerRemoteClient \<Rightarrow> error option \<times> 'c FreezerRemoteClient" where
  "FreezerRemoteClient_TruncateAncients t items api =
     (case rpc_CallNil t ''freezer_truncateAncients'' [Uint64 items] (client api) of
        (err, c) \<Rightarrow> (err, api\<lparr>client := c\<rparr>))"

definition FreezerRemoteClient_Sync ::
  "'c rpc_Client \<Rightarrow> 'c FreezerRemoteClient \<Rightarrow> error option \<times> 'c FreezerRemoteClient" where
  "FreezerRemoteClient_Sync t api =
     (case rpc_CallNil t ''freezer_sync'' [] (client api) of
        (err, c) \<Rightarrow> (err, api\<lparr>client := c\<rparr>))"

subsection \<open>A connection that reaches a facade\<close>

text \<open>
  Modelled from the spec: \<^verbatim>\<open>rpc.Client\<close> and the server's dispatch are not among the
  sources. Section 2: a call goes from the client over the transport to the server
  facade, on to the engine, and its result comes back the same way; section 5: a call is
  synchronous; section 6: the methods are \<^verbatim>\<open>close\<close>, \<^verbatim>\<open>hasAncient\<close>, \<^verbatim>\<open>ancient\<close>,
  \<^verbatim>\<open>ancients\<close>, \<^verbatim>\<open>ancientSize\<close>, \<^verbatim>\<open>appendAncient\<close>, \<^verbatim>\<open>truncateAncients\<close> and
  \<^verbatim>\<open>sync\<close>, which the client names with the prefix \<^verbatim>\<open>freezer_\<close>; section 7: a failure of
  the connection is a \<^verbatim>\<open>TransportError\<close>.
  A connection is the engine state of the server it reaches. A call for an unknown method
  or with other arguments than the method takes fails; any other call runs the facade's
  method on the server's engine, and on an error of the facade stores no answer.
\<close>

definition serveNil :: "'s freezerRemote \<Rightarrow> string \<Rightarrow> arg list \<Rightarrow> 's \<Rightarrow> error option \<times> 's" where
  "serveNil f method args s =
     (if method = ''freezer_close'' \<and> args = [] then FreezerRemoteAPI_Close f s
      else if method = ''freezer_sync'' \<and> args = [] then FreezerRemoteAPI_Sync f s
      else if method = ''freezer_truncateAncients'' then
        (case args of
           [Uint64 items] \<Rightarrow> FreezerRemoteAPI_TruncateAncients f items s
         | _ \<Rightarrow> (Some (TransportError ''invalid params''), s))
      else if method = ''freezer_appendAncient'' then
        (case args of
           [Uint64 number, String hash, String header, String body, String receipts, String td] \<Rightarrow>
             FreezerRemoteAPI_AppendAncient f number hash header body receipts td s
         | _ \<Rightarrow> (Some (TransportError ''invalid params''), s))
      else (Some (TransportError ''method not found''), s))"

definition serveBool ::
  "'s freezerRemote \<Rightarrow> string \<Rightarrow> arg list \<Rightarrow> 's \<Rightarrow> (bool \<times> error option) \<times> 's" where
  "serveBool f method args s =
     (if method = ''freezer_hasAncient'' then
        (case args of
           [String kind, Uint64 number] \<Rightarrow>
             (case FreezerRemoteAPI_HasAncient f kind number s of
                ((res, None), s') \<Rightarrow> ((res, None), s')
              | ((res, Some err), s') \<Rightarrow> ((False, Some err), s'))
         | _ \<Rightarrow> ((False, Some (TransportError ''invalid params'')), s))
      else ((False, Some (TransportError ''method not found'')), s))"

definition serveUint64 ::
  "'s freezerRemote \<Rightarrow> string \<Rightarrow> arg list \<Rightarrow> 's \<Rightarrow> (uint64 \<times> error option) \<times> 's" where
  "serveUint64 f method args s =
     (if method = ''freezer_ancients'' \<and> args = [] then
        (case FreezerRemoteAPI_Ancients f s of
           ((res, None), s') \<Rightarrow> ((res, None), s')
         | ((res, Some err), s') \<Rightarrow> ((0, Some err), s'))
      else if method = ''freezer_ancientSize'' then
        (case args of
           [String kind] \<Rightarrow>
             (case FreezerRemoteAPI_AncientSize f kind s of
                ((res, None), s') \<Rightarrow> ((res, None), s')
              | ((res, Some err), s') \<Rightarrow> ((0, Some err), s'))
         | _ \<Rightarrow> ((0, Some (TransportError ''invalid params'')), s))
      else ((0, Some (TransportError ''method not found'')), s))"

definition serveString ::
  "'s freezerRemote \<Rightarrow> string \<Rightarrow> arg list \<Rightarrow> 's \<Rightarrow> (string \<times> error option) \<times> 's" where
  "serveString f method args s =
     (if method = ''freezer_ancient'' then
        (case args of
           [String kind, Uint64 number] \<Rightarrow>
             (case FreezerRemoteAPI_Ancient f kind number s of
                ((res, None), s') \<Rightarrow> ((res, None), s')
              | ((res, Some err), s') \<Rightarrow> (([], Some err), s'))
         | _ \<Rightarrow> (([], Some (TransportError ''invalid params'')), s))
      else (([], Some (TransportError ''method not found'')), s))"

definition loopback :: "'s freezerRemote \<Rightarrow> 's rpc_Client" where
  "loopback f =
     \<lparr>rpc_CallNil = serveNil f,
      rpc_CallBool = serveBool f,
      rpc_CallUint64 = serveUint64 f,
      rpc_CallString = serveString f\<rparr>"


subsection \<open>Concrete stores, clients and transports\<close>

text \<open>A store holding one record whose every category stores the single byte \<^verbatim>\<open>ab\<close>.\<close>

definition one_record_store :: store where
  "one_record_store = \<lparr>frozen = 1, tables = (\<lambda>kind. [[0xab]])\<rparr>"


text \<open>
  A transport with nobody at the other end: every call fails. It stands for an HTTP
  endpoint on which nothing listens. \<open>dial_http\<close> stands for \<^verbatim>\<open>rpc.Dial\<close> on the
  endpoints it hands to its HTTP transport: an address with the scheme \<^verbatim>\<open>http\<close> or
  \<^verbatim>\<open>https\<close> is accepted without connecting. Endpoints of the other transports are
  not described: the stand-in answers them with an error.
\<close>

definition dial_http :: "string \<Rightarrow> error + unit" where
  "dial_http endpoint =
     (if take 7 endpoint = ''http://'' \<or> take 8 endpoint = ''https://'' then Inr ()
      else Inl (TransportError ''endpoint of another transport''))"

definition unreachable :: "unit rpc_Client" where
  "unreachable =
     \<lparr>rpc_CallNil = (\<lambda>method args c. (Some (TransportError ''connection refused''), c)),
      rpc_CallBool = (\<lambda>method args c. ((False, Some (TransportError ''connection refused'')), c)),
      rpc_CallUint64 = (\<lambda>method args c. ((0, Some (TransportError ''connection refused'')), c)),
      rpc_CallString = (\<lambda>method args c. (([], Some (TransportError ''connection refused'')), c))\<rparr>"


section \<open>Properties\<close>

subsection \<open>The codec\<close>

lemma fromHexChar_hextable_all:
  "list_all (\<lambda>n. fromHexChar (hextable ! n) = Some (of_nat n)) [0..<16]"
  by code_simp

lemma fromHexChar_hextable: "n < 16 \<Longrightarrow> fromHexChar (hextable ! n) = Some (of_nat n)"
  using fromHexChar_hextable_all by (simp add: list_all_iff)

lemma low_nibble_mask: "(0x0f :: byte) = mask 4"
  by (simp add: mask_eq_exp_minus_1)

lemma nibbles_join: "push_bit 4 (drop_bit 4 v) OR (v AND 0x0f) = (v :: byte)"
  unfolding low_nibble_mask by (rule bit_word_eqI) (auto simp: bit_simps)

lemma high_nibble_less: "unat (drop_bit 4 (v :: byte)) < 16"
proof -
  have "unat v < 256"
    using unsigned_less [of v, where ?'a = nat] by simp
  then show ?thesis
    by (simp add: drop_bit_eq_div unat_div)
qed

lemma low_nibble_less: "unat ((v :: byte) AND 0x0f) < 16"
  unfolding low_nibble_mask
  by (simp add: take_bit_eq_mask [symmetric] unsigned_take_bit_eq take_bit_eq_mod unat_mod)

lemma fromHexChar_high: "fromHexChar (hextable ! unat (drop_bit 4 v)) = Some (drop_bit 4 v)"
  using fromHexChar_hextable [OF high_nibble_less, of v] by simp

lemma fromHexChar_low: "fromHexChar (hextable ! unat (v AND 0x0f)) = Some (v AND 0x0f)"
  using fromHexChar_hextable [OF low_nibble_less, of v] by simp

lemma hex_DecodeString_Encode: "hex_DecodeString (hex_Encode b) = (b, None)"
  by (induction b) (simp_all add: fromHexChar_high fromHexChar_low nibbles_join)

lemma Decode_Encode: "Decode (Encode b) = (b, None)"
  by (simp add: Decode_def Encode_def has0xPrefix_def hex_DecodeString_Encode)

lemma has0xPrefix_Encode: "has0xPrefix (Encode b)"
  by (simp add: has0xPrefix_def Encode_def)

text \<open>
  Claim C3. For every byte sequence \<open>B\<close>, the empty one included, decoding the envelope
  that encoding \<open>B\<close> produces returns exactly \<open>B\<close> and no error; the empty sequence is
  encoded as the literal \<^verbatim>\<open>0x\<close>, and decoding \<^verbatim>\<open>0x\<close> returns the empty sequence.
\<close>

theorem codec_round_trip:
  "Decode (Encode B) = (B, None) \<and> Encode [] = ''0x'' \<and> Decode ''0x'' = ([], None)"
  by (simp add: Decode_Encode) (simp add: Decode_def Encode_def has0xPrefix_def)

subsection \<open>Decoding of some concrete envelopes\<close>

lemma Decode_0x01: "Decode ''0x01'' = ([0x01], None)"
  by code_simp

lemma Decode_0x02: "Decode ''0x02'' = ([0x02], None)"
  by code_simp

lemma Decode_0x03: "Decode ''0x03'' = ([0x03], None)"
  by code_simp

lemma Decode_0x04: "Decode ''0x04'' = ([0x04], None)"
  by code_simp

lemma Decode_0x05: "Decode ''0x05'' = ([0x05], None)"
  by code_simp

lemma Decode_zz: "Decode ''zz'' = ([], Some (MalformedEnvelope ErrMissingPrefix))"
  by code_simp

lemma Encode_ab: "Encode [0xab] = ''0xab''"
  by code_simp

subsection \<open>The facade's \<^verbatim>\<open>AppendAncient\<close>\<close>

text \<open>
  When the four tested decodings succeed the facade calls the engine, with the bytes the
  five decodings returned.
\<close>

lemma AppendAncient_reaches_engine:
  assumes "snd (Decode hash) = None" "snd (Decode header) = None"
    "snd (Decode body) = None" "snd (Decode receipts) = None"
  shows "FreezerRemoteAPI_AppendAncient f number hash header body receipts td s =
         freezerRemote_AppendAncient f number (fst (Decode hash)) (fst (Decode header))
           (fst (Decode body)) (fst (Decode receipts)) (fst (Decode td)) s"
  using assms unfolding FreezerRemoteAPI_AppendAncient_def
  by (cases "Decode hash"; cases "Decode header"; cases "Decode body";
      cases "Decode receipts"; cases "Decode td") simp

text \<open>
  When one of the four tested decodings fails, the facade returns that error and the
  engine's state is as it was: the engine is not called.
\<close>

lemma AppendAncient_rejects_tested_arguments:
  assumes "snd (Decode hash) \<noteq> None \<or> snd (Decode header) \<noteq> None \<or>
           snd (Decode body) \<noteq> None \<or> snd (Decode receipts) \<noteq> None"
  shows "\<exists>e. FreezerRemoteAPI_AppendAncient f number hash header body receipts td s
             = (Some (MalformedEnvelope e), s)"
proof -
  have malformed: "\<exists>e. err = MalformedEnvelope e" if "Decode x = (b, Some err)" for x b err
    using that by (auto simp: Decode_def split: if_splits prod.splits option.splits)
  show ?thesis
    using assms unfolding FreezerRemoteAPI_AppendAncient_def
    by (cases "Decode hash"; cases "Decode header"; cases "Decode body";
        cases "Decode receipts"; cases "Decode td")
       (auto split: option.splits dest: malformed)
qed

lemma store_engine_AppendAncient:
  "freezerRemote_AppendAncient store_engine = store_AppendAncient"
  by (simp add: store_engine_def)

text \<open>
  Claim C1. For every \<^verbatim>\<open>AppendAncient\<close> call on the store, made on the store itself
  with five blobs, or made through the facade with five valid envelopes (the calls whose
  blobs the facade hands to the store): if the call's number equals the current frozen
  count, the call succeeds and the frozen count afterwards is the old one plus 1; if the
  number differs, the call fails with \<^verbatim>\<open>OutOfOrderAppend\<close> and the store, its frozen
  count included, is unchanged.
\<close>

theorem AppendAncient_ordering:
  assumes "snd (Decode hash) = None" "snd (Decode header) = None" "snd (Decode body) = None"
    "snd (Decode receipts) = None" "snd (Decode td) = None"
  shows "(unat number = frozen st \<longrightarrow>
            fst (freezerRemote_AppendAncient store_engine number bHash bHeader bBody bReceipts bTd st)
              = None \<and>
            frozen (snd (freezerRemote_AppendAncient store_engine number bHash bHeader bBody
                           bReceipts bTd st))
              = frozen st + 1 \<and>
            fst (FreezerRemoteAPI_AppendAncient store_engine number hash header body receipts td st)
              = None \<and>
            frozen (snd (FreezerRemoteAPI_AppendAncient store_engine number hash header body
                           receipts td st))
              = frozen st + 1) \<and>
         (unat number \<noteq> frozen st \<longrightarrow>
            freezerRemote_AppendAncient store_engine number bHash bHeader bBody bReceipts bTd st
              = (Some OutOfOrderAppend, st) \<and>
            FreezerRemoteAPI_AppendAncient store_engine number hash header body receipts td st
              = (Some OutOfOrderAppend, st))"
proof -
  have through_facade:
    "FreezerRemoteAPI_AppendAncient store_engine number hash header body receipts td st =
     store_AppendAncient number (fst (Decode hash)) (fst (Decode header)) (fst (Decode body))
       (fst (Decode receipts)) (fst (Decode td)) st"
    using assms by (simp add: AppendAncient_reaches_engine store_engine_AppendAncient)
  show ?thesis
    unfolding through_facade store_engine_AppendAncient
    by (simp add: store_AppendAncient_def)
qed

theorem AppendAncient_ordering_witness:
  "snd (Decode ''0x01'') = None \<and> snd (Decode ''0x02'') = None \<and> snd (Decode ''0x03'') = None \<and>
   snd (Decode ''0x04'') = None \<and> snd (Decode ''0x05'') = None \<and>
   unat (0 :: uint64) = frozen empty_store \<and>
   fst (FreezerRemoteAPI_AppendAncient store_engine 0 ''0x01'' ''0x02'' ''0x03'' ''0x04'' ''0x05''
          empty_store) = None \<and>
   frozen (snd (FreezerRemoteAPI_AppendAncient store_engine 0 ''0x01'' ''0x02'' ''0x03'' ''0x04''
                  ''0x05'' empty_store)) = 1 \<and>
   frozen (snd (freezerRemote_AppendAncient store_engine 0 [1] [2] [3] [4] [5] empty_store)) = 1 \<and>
   unat (5 :: uint64) \<noteq> frozen empty_store \<and>
   FreezerRemoteAPI_AppendAncient store_engine 5 ''0x01'' ''0x02'' ''0x03'' ''0x04'' ''0x05''
     empty_store = (Some OutOfOrderAppend, empty_store) \<and>
   freezerRemote_AppendAncient store_engine 5 [1] [2] [3] [4] [5] empty_store
     = (Some OutOfOrderAppend, empty_store)"
proof -
  have d: "snd (Decode ''0x01'') = None" "snd (Decode ''0x02'') = None"
    "snd (Decode ''0x03'') = None" "snd (Decode ''0x04'') = None" "snd (Decode ''0x05'') = None"
    by (simp_all add: Decode_0x01 Decode_0x02 Decode_0x03 Decode_0x04 Decode_0x05)
  have z: "unat (0 :: uint64) = frozen empty_store"
    and f: "unat (5 :: uint64) \<noteq> frozen empty_store"
    by (simp_all add: empty_store_def)
  show ?thesis
    using AppendAncient_ordering [OF d, of 0 empty_store "[1]" "[2]" "[3]" "[4]" "[5]"]
      AppendAncient_ordering [OF d, of 5 empty_store "[1]" "[2]" "[3]" "[4]" "[5]"] d z f
    by simp
qed

text \<open>
  Claim C2, at the input where the program departs from it. On the empty store the call
  \<^verbatim>\<open>AppendAncient(0, "0x01", "0x02", "0x03", "0x04", "zz")\<close> has a \<^verbatim>\<open>td\<close> that is not a
  valid envelope (it lacks the prefix). The call returns no error, and the store has
  appended a record whose \<^verbatim>\<open>td\<close> blob is empty: its frozen count is 1.
\<close>

theorem AppendAncient_untested_td:
  "Decode ''zz'' = ([], Some (MalformedEnvelope ErrMissingPrefix)) \<and>
   fst (FreezerRemoteAPI_AppendAncient store_engine 0 ''0x01'' ''0x02'' ''0x03'' ''0x04'' ''zz''
          empty_store) = None \<and>
   frozen (snd (FreezerRemoteAPI_AppendAncient store_engine 0 ''0x01'' ''0x02'' ''0x03'' ''0x04''
                  ''zz'' empty_store)) = 1 \<and>
   tables (snd (FreezerRemoteAPI_AppendAncient store_engine 0 ''0x01'' ''0x02'' ''0x03'' ''0x04''
                  ''zz'' empty_store)) ''td'' = [[]]"
  by (simp add: AppendAncient_reaches_engine Decode_0x01 Decode_0x02 Decode_0x03 Decode_0x04
      Decode_zz store_engine_AppendAncient store_AppendAncient_def empty_store_def)

subsection \<open>What the facade hands back from the engine\<close>

text \<open>
  Claim C4. When the engine's \<^verbatim>\<open>Ancient\<close> returns an error, the facade's \<^verbatim>\<open>Ancient\<close>
  returns the placeholder \<^verbatim>\<open>0x\<close>, which is the encoding of the empty blob, together
  with that error; when the engine returns no error, the facade returns the hex encoding
  of the engine's blob and no error.
\<close>

theorem Ancient_placeholder_on_failure:
  assumes "freezerRemote_Ancient f kind number s = ((ancient, err), s')"
  shows "(err \<noteq> None \<longrightarrow> FreezerRemoteAPI_Ancient f kind number s = ((''0x'', err), s')) \<and>
         (err = None \<longrightarrow> FreezerRemoteAPI_Ancient f kind number s = ((Encode ancient, None), s')) \<and>
         Encode [] = ''0x''"
  using assms by (simp add: FreezerRemoteAPI_Ancient_def Encode_def)

theorem Ancient_placeholder_on_failure_witness:
  "freezerRemote_Ancient store_engine ''hash'' 1 one_record_store
     = (([], Some NotFound), one_record_store) \<and>
   FreezerRemoteAPI_Ancient store_engine ''hash'' 1 one_record_store
     = ((''0x'', Some NotFound), one_record_store) \<and>
   freezerRemote_Ancient store_engine ''hash'' 0 one_record_store
     = (([0xab], None), one_record_store) \<and>
   FreezerRemoteAPI_Ancient store_engine ''hash'' 0 one_record_store
     = ((''0xab'', None), one_record_store)"
proof -
  have failure: "freezerRemote_Ancient store_engine ''hash'' 1 one_record_store
      = (([], Some NotFound), one_record_store)"
    by (simp add: store_engine_def store_Ancient_def one_record_store_def)
  have success: "freezerRemote_Ancient store_engine ''hash'' 0 one_record_store
      = (([0xab], None), one_record_store)"
    by (simp add: store_engine_def store_Ancient_def one_record_store_def)
  show ?thesis
    using Ancient_placeholder_on_failure [OF failure] Ancient_placeholder_on_failure [OF success]
      failure success
    by (simp add: Encode_ab)
qed

text \<open>
  Claim C5. For each of the eight operations of the facade and every error \<open>e\<close> that the
  engine's operation returns when the facade calls it, the facade returns exactly \<open>e\<close>.
  \<^verbatim>\<open>AppendAncient\<close> calls the engine when its four tested arguments decode, with the bytes
  its five decodings returned.
\<close>

theorem facade_propagates_engine_errors:
  "(snd (fst (freezerRemote_HasAncient f kind number s)) = Some e \<longrightarrow>
      snd (fst (FreezerRemoteAPI_HasAncient f kind number s)) = Some e) \<and>
   (snd (fst (freezerRemote_Ancient f kind number s)) = Some e \<longrightarrow>
      snd (fst (FreezerRemoteAPI_Ancient f kind number s)) = Some e) \<and>
   (snd (fst (freezerRemote_Ancients f s)) = Some e \<longrightarrow>
      snd (fst (FreezerRemoteAPI_Ancients f s)) = Some e) \<and>
   (snd (fst (freezerRemote_AncientSize f kind s)) = Some e \<longrightarrow>
      snd (fst (FreezerRemoteAPI_AncientSize f kind s)) = Some e) \<and>
   (snd (Decode hash) = None \<and> snd (Decode header) = None \<and>
    snd (Decode body) = None \<and> snd (Decode receipts) = None \<and>
    fst (freezerRemote_AppendAncient f number (fst (Decode hash)) (fst (Decode header))
           (fst (Decode body)) (fst (Decode receipts)) (fst (Decode td)) s) = Some e \<longrightarrow>
      fst (FreezerRemoteAPI_AppendAncient f number hash header body receipts td s) = Some e) \<and>
   (fst (freezerRemote_TruncateAncients f items s) = Some e \<longrightarrow>
      fst (FreezerRemoteAPI_TruncateAncients f items s) = Some e) \<and>
   (fst (freezerRemote_Sync f s) = Some e \<longrightarrow> fst (FreezerRemoteAPI_Sync f s) = Some e) \<and>
   (fst (freezerRemote_Close f s) = Some e \<longrightarrow> fst (FreezerRemoteAPI_Close f s) = Some e)"
proof -
  have "snd (fst (FreezerRemoteAPI_Ancient f kind number s)) = Some e"
    if "snd (fst (freezerRemote_Ancient f kind number s)) = Some e"
    using that
    by (cases "freezerRemote_Ancient f kind number s") (auto simp: FreezerRemoteAPI_Ancient_def)
  moreover have "snd (fst (FreezerRemoteAPI_Ancients f s)) = Some e"
    if "snd (fst (freezerRemote_Ancients f s)) = Some e"
    using that
    by (cases "freezerRemote_Ancients f s") (auto simp: FreezerRemoteAPI_Ancients_def)
  moreover have "snd (fst (FreezerRemoteAPI_AncientSize f kind s)) = Some e"
    if "snd (fst (freezerRemote_AncientSize f kind s)) = Some e"
    using that
    by (cases "freezerRemote_AncientSize f kind s") (auto simp: FreezerRemoteAPI_AncientSize_def)
  ultimately show ?thesis
    by (simp add: FreezerRemoteAPI_HasAncient_def FreezerRemoteAPI_TruncateAncients_def
        FreezerRemoteAPI_Sync_def FreezerRemoteAPI_Close_def AppendAncient_reaches_engine)
qed

theorem facade_propagates_engine_errors_witness:
  "snd (fst (FreezerRemoteAPI_HasAncient (failing_engine (EngineError ''disk'')) ''hash'' 0 ()))
     = Some (EngineError ''disk'') \<and>
   snd (fst (FreezerRemoteAPI_Ancient (failing_engine (EngineError ''disk'')) ''hash'' 0 ()))
     = Some (EngineError ''disk'') \<and>
   snd (fst (FreezerRemoteAPI_Ancients (failing_engine (EngineError ''disk'')) ()))
     = Some (EngineError ''disk'') \<and>
   snd (fst (FreezerRemoteAPI_AncientSize (failing_engine (EngineError ''disk'')) ''hash'' ()))
     = Some (EngineError ''disk'') \<and>
   fst (FreezerRemoteAPI_AppendAncient (failing_engine (EngineError ''disk'')) 0
          ''0x01'' ''0x02'' ''0x03'' ''0x04'' ''0x05'' ()) = Some (EngineError ''disk'') \<and>
   fst (FreezerRemoteAPI_TruncateAncients (failing_engine (EngineError ''disk'')) 0 ())
     = Some (EngineError ''disk'') \<and>
   fst (FreezerRemoteAPI_Sync (failing_engine (EngineError ''disk'')) ())
     = Some (EngineError ''disk'') \<and>
   fst (FreezerRemoteAPI_Close (failing_engine (EngineError ''disk'')) ())
     = Some (EngineError ''disk'')"
  using facade_propagates_engine_errors [where f = "failing_engine (EngineError ''disk'')"
      and kind = "''hash''" and number = 0 and s = "()" and e = "EngineError ''disk''"
      and hash = "''0x01''" and header = "''0x02''" and body = "''0x03''"
      and receipts = "''0x04''" and td = "''0x05''" and items = 0]
  by (simp add: failing_engine_def Decode_0x01 Decode_0x02 Decode_0x03 Decode_0x04)

text \<open>
  Claim C7. \<^verbatim>\<open>repair\<close> is a no-op that always succeeds: on every engine and state it
  returns no error and the state it was given; on every store the frozen count and the
  stored records of every category are as before.
\<close>

theorem repair_is_noop:
  "FreezerRemoteAPI_repair f s = (None, s) \<and>
   frozen (snd (FreezerRemoteAPI_repair store_engine st)) = frozen st \<and>
   tables (snd (FreezerRemoteAPI_repair store_engine st)) = tables st"
  by (simp add: FreezerRemoteAPI_repair_def)

subsection \<open>The remote client\<close>

lemma loopback_CallNil: "rpc_CallNil (loopback f) = serveNil f"
  by (simp add: loopback_def)


lemma loopback_CallString: "rpc_CallString (loopback f) = serveString f"
  by (simp add: loopback_def)


lemma serveNil_appendAncient:
  "serveNil f ''freezer_appendAncient''
     [Uint64 number, String hash, String header, String body, String receipts, String td] s
   = FreezerRemoteAPI_AppendAncient f number hash header body receipts td s"
  by (simp add: serveNil_def)

text \<open>
  Over such a connection the client's \<^verbatim>\<open>AppendAncient\<close> does to the server's engine
  what a direct call of the engine's \<^verbatim>\<open>AppendAncient\<close> with the same blobs does, and
  returns its error: encoding by the client and decoding by the facade cancel.
\<close>

lemma client_AppendAncient_is_engine_AppendAncient:
  "FreezerRemoteClient_AppendAncient (loopback f) number hash header body receipts td api =
     (case freezerRemote_AppendAncient f number hash header body receipts td (client api) of
        (err, s') \<Rightarrow> (err, api\<lparr>client := s'\<rparr>))"
  by (simp add: FreezerRemoteClient_AppendAncient_def loopback_CallNil serveNil_appendAncient
      AppendAncient_reaches_engine Decode_Encode)

text \<open>
  Over such a connection the client's \<^verbatim>\<open>Ancient\<close> returns the very blob the server's
  engine returned: decoding by the client undoes the encoding by the facade.
\<close>

lemma client_Ancient_is_engine_Ancient:
  assumes "freezerRemote_Ancient f kind number (client api) = ((blob, None), s')"
  shows "FreezerRemoteClient_Ancient (loopback f) kind number api =
         ((blob, None), api\<lparr>client := s'\<rparr>)"
  using assms
  by (simp add: FreezerRemoteClient_Ancient_def loopback_CallString serveString_def
      FreezerRemoteAPI_Ancient_def Decode_Encode)





text \<open>
  Claim C6, at an input where the program departs from it. \<^verbatim>\<open>rpc.Dial\<close> accepts the
  endpoint \<^verbatim>\<open>http://127.0.0.1:1\<close>, behind which nobody answers. The constructor sends no
  probe: it returns a client, with no error and the status \<^verbatim>\<open>ok [version=version 1]\<close>,
  although the first call made through that client fails with a \<^verbatim>\<open>TransportError\<close>.
\<close>

theorem construction_without_probe:
  "dial_http ''http://127.0.0.1:1'' = Inr () \<and>
   newFreezerRemoteClient dial_http ''http://127.0.0.1:1'' False
     = Inr \<lparr>client = (), status = ''ok [version=version 1]'', quit = None\<rparr> \<and>
   fst (FreezerRemoteClient_Ancients unreachable
          \<lparr>client = (), status = ''ok [version=version 1]'', quit = None\<rparr>)
     = (0, Some (TransportError ''connection refused''))"
  by (simp add: dial_http_def newFreezerRemoteClient_def FreezerRemoteClient_pingVersion_def
      FreezerRemoteClient_Ancients_def unreachable_def)



text \<open>
  Claim C9. \<^verbatim>\<open>pingVersion\<close> is a constant: for every client it returns
  \<^verbatim>\<open>("version 1", nil)\<close>, and it has no access to the connection. So the constructor
  fails exactly when the dial fails, with the dial's error, and otherwise returns a client
  holding the very connection the dial returned and the status
  \<^verbatim>\<open>ok [version=version 1]\<close>, whatever server is behind the connection.
\<close>

theorem pingVersion_constant:
  "FreezerRemoteClient_pingVersion api = (''version 1'', None) \<and>
   newFreezerRemoteClient Dial endpoint ipc =
     (case Dial endpoint of
        Inl err \<Rightarrow> Inl err
      | Inr c \<Rightarrow> Inr \<lparr>client = c, status = ''ok [version=version 1]'', quit = None\<rparr>) \<and>
   isl (newFreezerRemoteClient Dial endpoint ipc) = isl (Dial endpoint)"
  by (simp add: FreezerRemoteClient_pingVersion_def newFreezerRemoteClient_def split: sum.splits)

text \<open>
  Claim C10. The client's \<^verbatim>\<open>AppendAncient\<close> cannot fail while encoding: \<open>Encode\<close> is a
  total function; every blob \<open>b\<close> is sent as an envelope that starts with \<^verbatim>\<open>0x\<close> and
  that decodes, without error, to \<open>b\<close>; and the error the call returns is the error of its
  one transport call, whose arguments are the number and the five envelopes.
\<close>

theorem client_AppendAncient_encoding_total:
  "fst (FreezerRemoteClient_AppendAncient t number hash header body receipts td api) =
     fst (rpc_CallNil t ''freezer_appendAncient''
            [Uint64 number, String (Encode hash), String (Encode header), String (Encode body),
             String (Encode receipts), String (Encode td)] (client api)) \<and>
   has0xPrefix (Encode b) \<and> take 2 (Encode b) = ''0x'' \<and> Decode (Encode b) = (b, None)"
  by (simp add: FreezerRemoteClient_AppendAncient_def Decode_Encode has0xPrefix_Encode
      split: prod.splits) (simp add: Encode_def)

end
